theory Spec2Isabelle
  imports Main
begin

section \<open>The metadata refresh worker of process-queue-by-slug.ts\<close>

text \<open>
  The job handler of \<^verbatim>\<open>metadata-index-process-queue-by-slug\<close> pops a batch of
  pending requests, runs \<^verbatim>\<open>processSlug\<close> on each of them under one
  \<^verbatim>\<open>Promise.all\<close>, sends the collected metadata to the write queue and then
  extends or releases the lock. Everything the handler does to the outside (the pending
  list, the metadata API, the other queues, the lock) is a call to a collaborator; the model
  records these calls in a trace, in the order they are made, next to the three local
  variables of the handler. The collaborators are not part of this file; their calls are
  taken to return normally, except the metadata API, whose promise may be rejected.
\<close>

subsection \<open>Data\<close>

text \<open>\<^verbatim>\<open>RefreshTokenBySlug\<close>: the unit of work kept in the pending list.\<close>

record RefreshTokenBySlug =
  slug :: string
  contract :: string
  collection :: string
  continuation :: "string option"

text \<open>
  What \<^verbatim>\<open>MetadataApi.getTokensMetadataBySlug\<close> resolves with. The metadata items are
  opaque to the handler, so their type is a parameter.
\<close>

record 'm results =
  results_metadata :: "'m list"
  results_continuation :: "string option"

text \<open>
  What it rejects with: the handler reads \<^verbatim>\<open>error.response?.status\<close>,
  \<^verbatim>\<open>error.response.data\<close> and \<^verbatim>\<open>error.response.data.expires_in\<close>. An error that is
  not an HTTP error (no connection, a timeout) has no \<^verbatim>\<open>response\<close>. The seconds that
  the provider reports are taken to be an integer.
\<close>

record response_data =
  expires_in :: int

record response =
  status :: int
  data :: response_data

record fetch_error =
  response :: "response option"

datatype 'm settled = Resolved "'m results" | Rejected fetch_error

text \<open>The exception that reading a property of \<^verbatim>\<open>undefined\<close> throws.\<close>

datatype exn = TypeError

text \<open>
  An entry handed to the fetch queue:
  \<^verbatim>\<open>{ kind: "full-collection", data: { method, collection } }\<close>.
\<close>

datatype fetch_queue_item = FullCollection (item_method: string) (item_collection: string)

text \<open>The calls to collaborators, one constructor for each call site of the file.\<close>

datatype 'm call =
    Pending_get int
  | MetadataApi_getTokensMetadataBySlug string string string "string option"
  | Pending_add RefreshTokenBySlug bool
  | Tokens_getSingleToken string
  | MetadataIndexFetch_addToQueue "fetch_queue_item list" bool
  | CollectionUpdatesMetadata_addToQueue string string string int
  | MetadataIndexWrite_addToQueue "'m list"
  | ExtendLock string int
  | ReleaseLock string
  | Queue_add int

text \<open>
  The locals \<^verbatim>\<open>retry\<close>, \<^verbatim>\<open>rateLimitExpiredIn\<close> and \<^verbatim>\<open>metadata\<close> that the
  handler shares with every \<^verbatim>\<open>processSlug\<close>, and the trace of calls made so far.
\<close>

record 'm state =
  retry :: bool
  rateLimitExpiredIn :: int
  metadata :: "'m list"
  calls :: "'m call list"

text \<open>
  What the handler is run against: the configuration value it reads, what the pending list
  hands out for a count, how the fetch of the \<open>i\<close>-th popped request settles, the token
  that \<^verbatim>\<open>Tokens.getSingleToken\<close> finds for a collection, and the answer of
  \<^verbatim>\<open>extendLock\<close>.
\<close>

record config =
  maxParallelTokenCollectionSlugRefreshJobs :: int

record 'm env =
  pendingGet :: "int \<Rightarrow> RefreshTokenBySlug list"
  fetchSettles :: "nat \<Rightarrow> 'm settled"
  getSingleToken :: "string \<Rightarrow> string"
  extendLock :: "string \<Rightarrow> int \<Rightarrow> bool"

subsection \<open>Operations\<close>

definition QUEUE_NAME :: string where
  "QUEUE_NAME = ''metadata-index-process-queue-by-slug''"

definition getLockName :: "string \<Rightarrow> string" where
  "getLockName method = QUEUE_NAME @ '':'' @ method"

definition call :: "'m call \<Rightarrow> 'm state \<Rightarrow> 'm state" where
  "call c s = s\<lparr>calls := calls s @ [c]\<rparr>"

text \<open>\<^verbatim>\<open>addToQueue(delay)\<close> of this file: one \<^verbatim>\<open>queue.add\<close> with that delay (in ms).\<close>

definition addToQueue :: "int \<Rightarrow> 'm state \<Rightarrow> 'm state" where
  "addToQueue delay s = call (Queue_add delay) s"

text \<open>
  JavaScript's truth value of \<^verbatim>\<open>results.continuation\<close>, a string or
  \<^verbatim>\<open>undefined\<close>: the empty string counts as false.
\<close>

definition truthy :: "string option \<Rightarrow> bool" where
  "truthy c = (case c of None \<Rightarrow> False | Some x \<Rightarrow> x \<noteq> [])"

definition addToTokenRefreshQueueAndUpdateCollectionMetadata ::
  "(string \<Rightarrow> string) \<Rightarrow> string \<Rightarrow> RefreshTokenBySlug \<Rightarrow> 'm state \<Rightarrow> 'm state" where
  "addToTokenRefreshQueueAndUpdateCollectionMetadata tokenOf method refreshTokenBySlug s =
     (let tokenId = tokenOf (collection refreshTokenBySlug);
          s1 = call (Tokens_getSingleToken (collection refreshTokenBySlug)) s;
          s2 = call (MetadataIndexFetch_addToQueue
                       [FullCollection method (collection refreshTokenBySlug)] True) s1
      in call (CollectionUpdatesMetadata_addToQueue
                 (contract refreshTokenBySlug) tokenId method 0) s2)"

text \<open>\<^verbatim>\<open>error.response?.status === 429\<close>\<close>

definition status_is_429 :: "fetch_error \<Rightarrow> bool" where
  "status_is_429 error = (case response error of None \<Rightarrow> False | Some r \<Rightarrow> status r = 429)"

text \<open>
  \<^verbatim>\<open>processSlug\<close>. The second component of the result is the state after the call; the
  first says whether the promise is fulfilled (\<open>Inr ()\<close>) or rejected (\<open>Inl\<close>). In the
  \<^verbatim>\<open>catch\<close> block both branches evaluate \<^verbatim>\<open>error.response.data\<close>; without a
  \<^verbatim>\<open>response\<close> this throws a \<^verbatim>\<open>TypeError\<close> out of \<^verbatim>\<open>processSlug\<close> (in the first
  branch the test before it has already excluded that case).
\<close>

definition processSlug ::
  "(string \<Rightarrow> string) \<Rightarrow> string \<Rightarrow> RefreshTokenBySlug \<Rightarrow> 'm settled \<Rightarrow> 'm state
     \<Rightarrow> (exn + unit) \<times> 'm state" where
  "processSlug tokenOf method refreshTokenBySlug settles s =
     (if contract refreshTokenBySlug = ''0x0e3a2a1f2146d86a604adc220b4967a898d7fe07''
      then (Inr (), s)
      else
        let s1 = call (MetadataApi_getTokensMetadataBySlug
                         (contract refreshTokenBySlug) (slug refreshTokenBySlug) method
                         (continuation refreshTokenBySlug)) s
        in case settles of
             Resolved results \<Rightarrow>
               if length (results_metadata results) = 0
               then (Inr (), addToTokenRefreshQueueAndUpdateCollectionMetadata
                               tokenOf method refreshTokenBySlug s1)
               else
                 let s2 = (if truthy (results_continuation results)
                           then call (Pending_add
                                        \<lparr>slug = slug refreshTokenBySlug,
                                         contract = contract refreshTokenBySlug,
                                         collection = collection refreshTokenBySlug,
                                         continuation = results_continuation results\<rparr> True)
                                  (s1\<lparr>retry := True\<rparr>)
                           else s1)
                 in (Inr (), s2\<lparr>metadata := metadata s2 @ results_metadata results\<rparr>)
           | Rejected error \<Rightarrow>
               if status_is_429 error
               then (case response error of
                       None \<Rightarrow> (Inl TypeError, s1)
                     | Some r \<Rightarrow>
                         (Inr (), call (Pending_add refreshTokenBySlug True)
                                    (s1\<lparr>rateLimitExpiredIn :=
                                          max (max (rateLimitExpiredIn s1)
                                                   (expires_in (data r))) 5\<rparr>)))
               else (case response error of
                       None \<Rightarrow> (Inl TypeError, s1)
                     | Some r \<Rightarrow>
                         (Inr (), call (MetadataIndexFetch_addToQueue
                                          [FullCollection method (contract refreshTokenBySlug)]
                                          True) s1)))"

text \<open>
  \<^verbatim>\<open>Promise.all(refreshTokensBySlug.map(processSlug))\<close>. Every \<^verbatim>\<open>processSlug\<close> is
  started, and every one runs to its end whatever happens to the others; the combined
  promise is rejected with the first rejection. The tasks share the three locals, which
  they only update by \<^verbatim>\<open>retry = true\<close>, a maximum and \<^verbatim>\<open>metadata.push\<close>, so the
  locals at the end depend on the order of the tasks only through the order of the pushed
  pages. The model runs the tasks one after the other in a given order, and the handler
  takes that order as a parameter: a schedule, any permutation of the positions of the
  batch. The trace therefore groups the calls by task; the order of calls of different
  tasks in it carries no meaning. When a task throws, the trace and the locals still hold
  what the other tasks do, also after the handler has ended.
\<close>

fun fanout ::
  "(string \<Rightarrow> string) \<Rightarrow> string \<Rightarrow> (RefreshTokenBySlug \<times> 'm settled) list \<Rightarrow> 'm state
     \<Rightarrow> (exn + unit) \<times> 'm state" where
  "fanout tokenOf method [] s = (Inr (), s)"
| "fanout tokenOf method (t # ts) s =
     (case processSlug tokenOf method (fst t) (snd t) s of
        (r1, s1) \<Rightarrow>
          (case fanout tokenOf method ts s1 of
             (r2, s2) \<Rightarrow> (case r1 of Inl e \<Rightarrow> (Inl e, s2) | Inr u \<Rightarrow> (r2, s2))))"

definition schedule_ok :: "nat \<Rightarrow> nat list \<Rightarrow> bool" where
  "schedule_ok n sched = (distinct sched \<and> set sched = {0..<n})"

definition countTotal :: "config \<Rightarrow> int" where
  "countTotal cfg = maxParallelTokenCollectionSlugRefreshJobs cfg * 1"

definition init :: "'m state" where
  "init = \<lparr>retry = False, rateLimitExpiredIn = 0, metadata = [], calls = []\<rparr>"

text \<open>
  The job handler. A rejected \<^verbatim>\<open>Promise.all\<close> makes the \<^verbatim>\<open>await\<close> throw, and the
  handler ends there with that exception. A number is true in JavaScript when it is not 0.
\<close>

definition worker :: "config \<Rightarrow> 'm env \<Rightarrow> nat list \<Rightarrow> (exn + unit) \<times> 'm state" where
  "worker cfg env sched =
     (let method = ''opensea'';
          refreshTokensBySlug = pendingGet env (countTotal cfg);
          s0 = call (Pending_get (countTotal cfg)) init
      in if refreshTokensBySlug = []
         then (Inr (), call (ReleaseLock (getLockName method)) s0)
         else
           case fanout (getSingleToken env) method
                  (map (\<lambda>i. (refreshTokensBySlug ! i, fetchSettles env i)) sched) s0 of
             (Inl e, s1) \<Rightarrow> (Inl e, s1)
           | (Inr u, s1) \<Rightarrow>
               let s2 = call (MetadataIndexWrite_addToQueue (metadata s1)) s1
               in if rateLimitExpiredIn s2 \<noteq> 0
                     \<or> int (length refreshTokensBySlug) = countTotal cfg \<or> retry s2
                  then
                    let ttl = 60 * 5 + rateLimitExpiredIn s2;
                        s3 = call (ExtendLock (getLockName method) ttl) s2
                    in if extendLock env (getLockName method) ttl
                       then (Inr (), addToQueue (rateLimitExpiredIn s3 * 1000) s3)
                       else (Inr (), s3)
                  else (Inr (), call (ReleaseLock (getLockName method)) s2))"

subsection \<open>Reading the trace\<close>

text \<open>The requests pushed to the pending list, with their \<^verbatim>\<open>prioritized\<close> flag.\<close>

fun pendingAdds :: "'m call list \<Rightarrow> (RefreshTokenBySlug \<times> bool) list" where
  "pendingAdds [] = []"
| "pendingAdds (Pending_add r p # cs) = (r, p) # pendingAdds cs"
| "pendingAdds (c # cs) = pendingAdds cs"

text \<open>The \<^verbatim>\<open>collection\<close> field of every full-collection entry sent to the fetch queue.\<close>

fun fullCollectionRefreshes :: "'m call list \<Rightarrow> string list" where
  "fullCollectionRefreshes [] = []"
| "fullCollectionRefreshes (MetadataIndexFetch_addToQueue items p # cs) =
     map item_collection items @ fullCollectionRefreshes cs"
| "fullCollectionRefreshes (c # cs) = fullCollectionRefreshes cs"

text \<open>The contracts for which a collection metadata update was requested.\<close>

fun collectionMetadataUpdates :: "'m call list \<Rightarrow> string list" where
  "collectionMetadataUpdates [] = []"
| "collectionMetadataUpdates (CollectionUpdatesMetadata_addToQueue c t m d # cs) =
     c # collectionMetadataUpdates cs"
| "collectionMetadataUpdates (c # cs) = collectionMetadataUpdates cs"

text \<open>The calls that end an invocation: lock operations and the next job.\<close>

fun isFinal :: "'m call \<Rightarrow> bool" where
  "isFinal (ExtendLock k t) = True"
| "isFinal (ReleaseLock k) = True"
| "isFinal (Queue_add d) = True"
| "isFinal c = False"

text \<open>The metadata write of an invocation.\<close>

fun isWrite :: "'m call \<Rightarrow> bool" where
  "isWrite (MetadataIndexWrite_addToQueue ms) = True"
| "isWrite c = False"

subsection \<open>Example runs\<close>

definition req_a :: RefreshTokenBySlug where
  "req_a = \<lparr>slug = ''apes'', contract = ''0xaa'', collection = ''c1'',
            continuation = Some ''p1''\<rparr>"

definition req_b :: RefreshTokenBySlug where
  "req_b = \<lparr>slug = ''birds'', contract = ''0xbb'', collection = ''c2'',
            continuation = None\<rparr>"

definition req_skipped :: RefreshTokenBySlug where
  "req_skipped = \<lparr>slug = ''skipped'',
                  contract = ''0x0e3a2a1f2146d86a604adc220b4967a898d7fe07'',
                  collection = ''c3'', continuation = None\<rparr>"

definition rate_limited :: "int \<Rightarrow> fetch_error" where
  "rate_limited n = \<lparr>response = Some \<lparr>status = 429, data = \<lparr>expires_in = n\<rparr>\<rparr>\<rparr>"

definition http_error :: "int \<Rightarrow> fetch_error" where
  "http_error n = \<lparr>response = Some \<lparr>status = n, data = \<lparr>expires_in = 0\<rparr>\<rparr>\<rparr>"

definition no_response :: fetch_error where
  "no_response = \<lparr>response = None\<rparr>"

definition page :: "string list \<Rightarrow> string option \<Rightarrow> string settled" where
  "page ms c = Resolved \<lparr>results_metadata = ms, results_continuation = c\<rparr>"

definition cfg5 :: config where
  "cfg5 = \<lparr>maxParallelTokenCollectionSlugRefreshJobs = 5\<rparr>"

text \<open>A pending list that hands out \<open>req_a\<close> alone, one that hands out \<open>req_a\<close> and
  \<open>req_b\<close>, and an empty one.\<close>

definition one_env :: "string settled \<Rightarrow> bool \<Rightarrow> string env" where
  "one_env x ok = \<lparr>pendingGet = (\<lambda>n. [req_a]), fetchSettles = (\<lambda>i. x),
                    getSingleToken = (\<lambda>c. ''1''), extendLock = (\<lambda>k t. ok)\<rparr>"

definition two_env :: "string settled \<Rightarrow> string settled \<Rightarrow> string env" where
  "two_env x y = \<lparr>pendingGet = (\<lambda>n. [req_a, req_b]),
                   fetchSettles = (\<lambda>i. if i = 0 then x else y),
                   getSingleToken = (\<lambda>c. ''1''), extendLock = (\<lambda>k t. True)\<rparr>"

definition empty_env :: "string env" where
  "empty_env = \<lparr>pendingGet = (\<lambda>n. []), fetchSettles = (\<lambda>i. Rejected no_response),
                 getSingleToken = (\<lambda>c. ''1''), extendLock = (\<lambda>k t. True)\<rparr>"

text \<open>The states in which some of the example runs end.\<close>

definition cooldown_state :: "string state" where
  "cooldown_state =
     \<lparr>retry = False, rateLimitExpiredIn = 20, metadata = [],
      calls = [Pending_get 5,
               MetadataApi_getTokensMetadataBySlug ''0xaa'' ''apes'' ''opensea'' (Some ''p1''),
               Pending_add req_a True,
               MetadataIndexWrite_addToQueue [],
               ExtendLock ''metadata-index-process-queue-by-slug:opensea'' 320,
               Queue_add 20000]\<rparr>"

definition lock_lost_state :: "string state" where
  "lock_lost_state =
     \<lparr>retry = True, rateLimitExpiredIn = 0, metadata = [''t1''],
      calls = [Pending_get 5,
               MetadataApi_getTokensMetadataBySlug ''0xaa'' ''apes'' ''opensea'' (Some ''p1''),
               Pending_add \<lparr>slug = ''apes'', contract = ''0xaa'', collection = ''c1'',
                            continuation = Some ''abc''\<rparr> True,
               MetadataIndexWrite_addToQueue [''t1''],
               ExtendLock ''metadata-index-process-queue-by-slug:opensea'' 300]\<rparr>"

definition backoff_state :: "string state" where
  "backoff_state =
     \<lparr>retry = False, rateLimitExpiredIn = 5, metadata = [],
      calls = [MetadataApi_getTokensMetadataBySlug ''0xaa'' ''apes'' ''opensea'' (Some ''p1''),
               Pending_add req_a True]\<rparr>"

definition requeue_state :: "string state" where
  "requeue_state =
     \<lparr>retry = True, rateLimitExpiredIn = 0, metadata = [''t1''],
      calls = [MetadataApi_getTokensMetadataBySlug ''0xaa'' ''apes'' ''opensea'' (Some ''p1''),
               Pending_add \<lparr>slug = ''apes'', contract = ''0xaa'', collection = ''c1'',
                            continuation = Some ''abc''\<rparr> True]\<rparr>"

definition unresolved_state :: "string state" where
  "unresolved_state =
     \<lparr>retry = False, rateLimitExpiredIn = 0, metadata = [],
      calls = [MetadataApi_getTokensMetadataBySlug ''0xbb'' ''birds'' ''opensea'' None,
               Tokens_getSingleToken ''c2'',
               MetadataIndexFetch_addToQueue [FullCollection ''opensea'' ''c2''] True,
               CollectionUpdatesMetadata_addToQueue ''0xbb'' ''1'' ''opensea'' 0]\<rparr>"

section \<open>Properties\<close>

subsection \<open>Reading the trace and the locals after a call\<close>

lemmas ex_defs = req_a_def req_b_def req_skipped_def rate_limited_def http_error_def
  no_response_def page_def cfg5_def one_env_def two_env_def empty_env_def

lemmas run_defs = worker_def processSlug_def
  addToTokenRefreshQueueAndUpdateCollectionMetadata_def status_is_429_def truthy_def call_def
  init_def countTotal_def addToQueue_def getLockName_def QUEUE_NAME_def Let_def

lemma calls_call: "calls (call c s) = calls s @ [c]"
  by (simp add: call_def)

lemma call_fields:
  "retry (call c s) = retry s"
  "rateLimitExpiredIn (call c s) = rateLimitExpiredIn s"
  "metadata (call c s) = metadata s"
  by (simp_all add: call_def)

lemma pendingAdds_append: "pendingAdds (xs @ ys) = pendingAdds xs @ pendingAdds ys"
  by (induction xs rule: pendingAdds.induct) simp_all

lemma fullCollectionRefreshes_append:
  "fullCollectionRefreshes (xs @ ys) = fullCollectionRefreshes xs @ fullCollectionRefreshes ys"
  by (induction xs rule: fullCollectionRefreshes.induct) simp_all

lemma collectionMetadataUpdates_append:
  "collectionMetadataUpdates (xs @ ys)
     = collectionMetadataUpdates xs @ collectionMetadataUpdates ys"
  by (induction xs rule: collectionMetadataUpdates.induct) simp_all

lemmas trace_simps = calls_call call_fields pendingAdds_append fullCollectionRefreshes_append
  collectionMetadataUpdates_append

subsection \<open>One request\<close>

text \<open>
  C8. A request whose contract is the skipped address is dropped by \<^verbatim>\<open>processSlug\<close>
  at once: the promise is fulfilled and neither the locals nor the trace change, so there is
  no fetch, no push to the pending list, no dispatch to any queue and no error.
\<close>

theorem processSlug_skipped_contract:
  "contract r = ''0x0e3a2a1f2146d86a604adc220b4967a898d7fe07''
     \<Longrightarrow> processSlug tokenOf method r settles s = (Inr (), s)"
  by (simp add: processSlug_def)

theorem processSlug_skipped_contract_witness:
  "contract req_skipped = ''0x0e3a2a1f2146d86a604adc220b4967a898d7fe07''
   \<and> processSlug (\<lambda>c. ''1'') ''opensea'' req_skipped (page [''t1''] (Some ''abc'')) init
       = (Inr (), init)"
proof -
  have c: "contract req_skipped = ''0x0e3a2a1f2146d86a604adc220b4967a898d7fe07''"
    by (simp add: req_skipped_def)
  from processSlug_skipped_contract [OF c] c show ?thesis
    by simp
qed

text \<open>
  C1, as the code has it. For a request that is fetched, a page without metadata takes the
  unresolvable-slug path whether or not it carries a continuation: one full-collection entry
  for the request's collection goes to the fetch queue, one collection metadata update is
  requested for its contract, nothing is pushed to the pending list and \<^verbatim>\<open>retry\<close> is
  left as it was. A page with metadata dispatches neither; it is the only case in which a
  (non-empty) continuation sets \<^verbatim>\<open>retry\<close> and pushes the request again, prioritized,
  with the new continuation.
\<close>

theorem processSlug_empty_metadata:
  assumes "contract r \<noteq> ''0x0e3a2a1f2146d86a604adc220b4967a898d7fe07''"
    and "processSlug tokenOf method r (Resolved res) s = (result, s')"
  shows "result = Inr () \<and>
    (results_metadata res = [] \<longrightarrow>
       fullCollectionRefreshes (calls s') = fullCollectionRefreshes (calls s) @ [collection r]
     \<and> collectionMetadataUpdates (calls s') = collectionMetadataUpdates (calls s) @ [contract r]
     \<and> pendingAdds (calls s') = pendingAdds (calls s)
     \<and> retry s' = retry s) \<and>
    (results_metadata res \<noteq> [] \<longrightarrow>
       fullCollectionRefreshes (calls s') = fullCollectionRefreshes (calls s)
     \<and> collectionMetadataUpdates (calls s') = collectionMetadataUpdates (calls s)
     \<and> (truthy (results_continuation res) \<longrightarrow>
          retry s' \<and>
          pendingAdds (calls s') = pendingAdds (calls s) @
            [(\<lparr>slug = slug r, contract = contract r, collection = collection r,
               continuation = results_continuation res\<rparr>, True)])
     \<and> (\<not> truthy (results_continuation res) \<longrightarrow>
          retry s' = retry s \<and> pendingAdds (calls s') = pendingAdds (calls s)))"
  using assms
  by (auto simp: processSlug_def addToTokenRefreshQueueAndUpdateCollectionMetadata_def Let_def
      trace_simps split: if_splits)

theorem processSlug_empty_metadata_witness:
  "contract req_b \<noteq> ''0x0e3a2a1f2146d86a604adc220b4967a898d7fe07''
   \<and> processSlug (\<lambda>c. ''1'') ''opensea'' req_b (page [] (Some ''abc'')) init
       = (Inr (), unresolved_state)
   \<and> fullCollectionRefreshes (calls unresolved_state) = [''c2'']
   \<and> collectionMetadataUpdates (calls unresolved_state) = [''0xbb'']
   \<and> pendingAdds (calls unresolved_state) = []
   \<and> \<not> retry unresolved_state"
proof -
  have c: "contract req_b \<noteq> ''0x0e3a2a1f2146d86a604adc220b4967a898d7fe07''"
    by (simp add: req_b_def)
  have run: "processSlug (\<lambda>c. ''1'') ''opensea'' req_b
               (Resolved \<lparr>results_metadata = [], results_continuation = Some ''abc''\<rparr>) init
             = (Inr (), unresolved_state)"
    by (simp add: ex_defs run_defs unresolved_state_def)
  from processSlug_empty_metadata [OF c run] c run
  show ?thesis
    by (simp add: init_def req_b_def page_def)
qed

text \<open>
  C1 as the claim words it fails: the fetch of \<open>req_b\<close> returns no metadata and the
  continuation \<^verbatim>\<open>"abc"\<close>, and the request is handled as unresolvable all the same. Both
  dispatches are made, nothing is pushed back and \<^verbatim>\<open>retry\<close> stays false.
\<close>

theorem processSlug_empty_metadata_counterexample:
  "fullCollectionRefreshes
     (calls (snd (processSlug (\<lambda>c. ''1'') ''opensea'' req_b (page [] (Some ''abc'')) init)))
     = [''c2'']
   \<and> collectionMetadataUpdates
       (calls (snd (processSlug (\<lambda>c. ''1'') ''opensea'' req_b (page [] (Some ''abc'')) init)))
     = [''0xbb'']
   \<and> pendingAdds
       (calls (snd (processSlug (\<lambda>c. ''1'') ''opensea'' req_b (page [] (Some ''abc'')) init)))
     = []
   \<and> \<not> retry (snd (processSlug (\<lambda>c. ''1'') ''opensea'' req_b (page [] (Some ''abc'')) init))"
  by (simp add: ex_defs run_defs)

text \<open>
  C4. When the fetch of a request is rejected with a response of status 429, the cooldown
  becomes the maximum of the cooldown so far, the provider's \<^verbatim>\<open>expires_in\<close> and 5 (so at
  least 5 for \<^verbatim>\<open>expires_in = 2\<close> and at least 30 for \<^verbatim>\<open>expires_in = 30\<close>), and the
  request itself, as it was popped, is pushed to the pending list, prioritized.
\<close>

theorem processSlug_rate_limited:
  assumes "contract r \<noteq> ''0x0e3a2a1f2146d86a604adc220b4967a898d7fe07''"
    and "response error = Some rs" and "status rs = 429"
    and "processSlug tokenOf method r (Rejected error) s = (result, s')"
  shows "result = Inr ()
    \<and> rateLimitExpiredIn s' = max (max (rateLimitExpiredIn s) (expires_in (data rs))) 5
    \<and> (expires_in (data rs) = 2 \<longrightarrow> 5 \<le> rateLimitExpiredIn s')
    \<and> (expires_in (data rs) = 30 \<longrightarrow> 30 \<le> rateLimitExpiredIn s')
    \<and> pendingAdds (calls s') = pendingAdds (calls s) @ [(r, True)]"
  using assms
  by (auto simp: processSlug_def status_is_429_def Let_def trace_simps)

theorem processSlug_rate_limited_witness:
  "contract req_a \<noteq> ''0x0e3a2a1f2146d86a604adc220b4967a898d7fe07''
   \<and> response (rate_limited 2) = Some \<lparr>status = 429, data = \<lparr>expires_in = 2\<rparr>\<rparr>
   \<and> processSlug (\<lambda>c. ''1'') ''opensea'' req_a (Rejected (rate_limited 2)) init
       = (Inr (), backoff_state)
   \<and> rateLimitExpiredIn backoff_state = 5
   \<and> pendingAdds (calls backoff_state) = [(req_a, True)]
   \<and> continuation req_a = Some ''p1''"
proof -
  have c: "contract req_a \<noteq> ''0x0e3a2a1f2146d86a604adc220b4967a898d7fe07''"
    by (simp add: req_a_def)
  have e: "response (rate_limited 2) = Some \<lparr>status = 429, data = \<lparr>expires_in = 2\<rparr>\<rparr>"
    by (simp add: rate_limited_def)
  have st: "status \<lparr>status = 429, data = \<lparr>expires_in = 2\<rparr>\<rparr> = 429"
    by simp
  have run: "processSlug (\<lambda>c. ''1'') ''opensea'' req_a (Rejected (rate_limited 2)) init
             = (Inr (), backoff_state)"
    by (simp add: ex_defs run_defs backoff_state_def)
  from processSlug_rate_limited [OF c e st run] c e run
  show ?thesis
    by (simp add: init_def req_a_def)
qed

text \<open>
  C5, as the code has it. When the fetch of a request returns a page with metadata and a
  non-empty continuation, exactly one request is pushed to the pending list: it has the slug,
  contract and collection of the original and the new continuation, and it is prioritized.
\<close>

theorem processSlug_continuation_requeue:
  assumes "contract r \<noteq> ''0x0e3a2a1f2146d86a604adc220b4967a898d7fe07''"
    and "results_metadata res \<noteq> []"
    and "results_continuation res = Some c" and "c \<noteq> []"
    and "processSlug tokenOf method r (Resolved res) s = (result, s')"
  shows "result = Inr ()
    \<and> pendingAdds (calls s') = pendingAdds (calls s) @
        [(\<lparr>slug = slug r, contract = contract r, collection = collection r,
           continuation = Some c\<rparr>, True)]"
  using assms
  by (auto simp: processSlug_def truthy_def Let_def trace_simps)

theorem processSlug_continuation_requeue_witness:
  "contract req_a \<noteq> ''0x0e3a2a1f2146d86a604adc220b4967a898d7fe07''
   \<and> processSlug (\<lambda>c. ''1'') ''opensea'' req_a (page [''t1''] (Some ''abc'')) init
       = (Inr (), requeue_state)
   \<and> pendingAdds (calls requeue_state)
     = [(\<lparr>slug = ''apes'', contract = ''0xaa'', collection = ''c1'',
          continuation = Some ''abc''\<rparr>, True)]"
proof -
  let ?res = "\<lparr>results_metadata = [''t1''], results_continuation = Some ''abc''\<rparr>"
  have c: "contract req_a \<noteq> ''0x0e3a2a1f2146d86a604adc220b4967a898d7fe07''"
    by (simp add: req_a_def)
  have m: "results_metadata ?res \<noteq> []" and k: "results_continuation ?res = Some ''abc''"
    and n: "''abc'' \<noteq> []"
    by simp_all
  have run: "processSlug (\<lambda>c. ''1'') ''opensea'' req_a (Resolved ?res) init
             = (Inr (), requeue_state)"
    by (simp add: ex_defs run_defs requeue_state_def)
  from processSlug_continuation_requeue [OF c m k n run] c run
  show ?thesis
    by (simp add: init_def req_a_def page_def)
qed

text \<open>
  C5 as the claim words it fails: the fetch of \<open>req_a\<close> yields the continuation
  \<^verbatim>\<open>"abc"\<close> on a page without metadata, and no request is pushed to the pending list.
\<close>

theorem processSlug_continuation_requeue_counterexample:
  "pendingAdds (calls
     (snd (processSlug (\<lambda>c. ''1'') ''opensea'' req_a (page [] (Some ''abc'')) init))) = []"
  by (simp add: ex_defs run_defs)

text \<open>
  Which identifier the full-collection entry carries: on the path of an error that has a
  response with a status other than 429 it is the request's contract, on the empty-metadata
  path the request's collection.
\<close>

lemma full_collection_refresh_field:
  assumes "contract r \<noteq> ''0x0e3a2a1f2146d86a604adc220b4967a898d7fe07''"
  shows "(response error = Some rs \<longrightarrow> status rs \<noteq> 429 \<longrightarrow>
            fullCollectionRefreshes
              (calls (snd (processSlug tokenOf method r (Rejected error) s)))
            = fullCollectionRefreshes (calls s) @ [contract r])
       \<and> (results_metadata res = [] \<longrightarrow>
            fullCollectionRefreshes
              (calls (snd (processSlug tokenOf method r (Resolved res) s)))
            = fullCollectionRefreshes (calls s) @ [collection r])"
  using assms
  by (auto simp: processSlug_def addToTokenRefreshQueueAndUpdateCollectionMetadata_def Let_def
      status_is_429_def trace_simps)

text \<open>
  C10. The fetch of \<open>req_b\<close> is rejected with an error that is not a rate limit and has no
  response (a network error). The handler throws the \<^verbatim>\<open>TypeError\<close> while building its
  log line, before the call to the fetch queue: the only call of the task is the fetch, and
  no full-collection entry, with the contract or otherwise, is sent.
\<close>

theorem processSlug_no_response_no_refresh:
  "processSlug (\<lambda>c. ''1'') ''opensea'' req_b (Rejected no_response) (init :: string state)
   = (Inl TypeError,
      \<lparr>retry = False, rateLimitExpiredIn = 0, metadata = [],
       calls = [MetadataApi_getTokensMetadataBySlug ''0xbb'' ''birds'' ''opensea'' None]\<rparr>)"
  by (simp add: ex_defs run_defs)

theorem processSlug_no_response_no_refresh_witness:
  "fst (processSlug (\<lambda>c. ''1'') ''opensea'' req_b (Rejected no_response)
          (init :: string state)) = Inl TypeError
   \<and> fullCollectionRefreshes
       (calls (snd (processSlug (\<lambda>c. ''1'') ''opensea'' req_b (Rejected no_response)
                      (init :: string state)))) = []"
  using processSlug_no_response_no_refresh
  by simp

subsection \<open>The fan-out\<close>

lemma exn_is_TypeError: "(e :: exn) = TypeError"
  by (cases e)

lemma fst_fanout_Cons:
  "fst (fanout tokenOf method (t # ts) s)
     = (case fst (processSlug tokenOf method (fst t) (snd t) s) of
          Inl e \<Rightarrow> Inl e
        | Inr u \<Rightarrow> fst (fanout tokenOf method ts
                         (snd (processSlug tokenOf method (fst t) (snd t) s))))"
  by (simp split: prod.splits sum.splits)

lemma snd_fanout_Cons:
  "snd (fanout tokenOf method (t # ts) s)
     = snd (fanout tokenOf method ts (snd (processSlug tokenOf method (fst t) (snd t) s)))"
  by (simp split: prod.splits sum.splits)

text \<open>The cooldown never decreases, and a task makes no final call and no metadata write.\<close>

lemma processSlug_rate_mono:
  "rateLimitExpiredIn s \<le> rateLimitExpiredIn (snd (processSlug tokenOf method r x s))"
  by (cases x)
     (auto simp: processSlug_def addToTokenRefreshQueueAndUpdateCollectionMetadata_def
        Let_def call_fields split: option.splits)

lemma processSlug_final:
  "filter isFinal (calls (snd (processSlug tokenOf method r x s))) = filter isFinal (calls s)"
  by (cases x)
     (simp_all add: processSlug_def addToTokenRefreshQueueAndUpdateCollectionMetadata_def
        Let_def calls_call split: option.splits)

lemma processSlug_no_write:
  "filter isWrite (calls (snd (processSlug tokenOf method r x s))) = filter isWrite (calls s)"
  by (cases x)
     (simp_all add: processSlug_def addToTokenRefreshQueueAndUpdateCollectionMetadata_def
        Let_def calls_call split: option.splits)

lemma fanout_rate_mono:
  "rateLimitExpiredIn s \<le> rateLimitExpiredIn (snd (fanout tokenOf method ts s))"
proof (induction ts arbitrary: s)
  case Nil
  show ?case by simp
next
  case (Cons t ts)
  have "rateLimitExpiredIn s
          \<le> rateLimitExpiredIn (snd (processSlug tokenOf method (fst t) (snd t) s))"
    by (rule processSlug_rate_mono)
  also have "\<dots> \<le> rateLimitExpiredIn
      (snd (fanout tokenOf method ts (snd (processSlug tokenOf method (fst t) (snd t) s))))"
    by (rule Cons.IH)
  finally show ?case
    by (simp only: snd_fanout_Cons)
qed

lemma fanout_final:
  "filter isFinal (calls (snd (fanout tokenOf method ts s))) = filter isFinal (calls s)"
proof (induction ts arbitrary: s)
  case Nil
  show ?case by simp
next
  case (Cons t ts)
  show ?case
    by (simp only: snd_fanout_Cons Cons.IH processSlug_final)
qed

lemma fanout_no_write:
  "filter isWrite (calls (snd (fanout tokenOf method ts s))) = filter isWrite (calls s)"
proof (induction ts arbitrary: s)
  case Nil
  show ?case by simp
next
  case (Cons t ts)
  show ?case
    by (simp only: snd_fanout_Cons Cons.IH processSlug_no_write)
qed

text \<open>
  A task throws exactly when its request is fetched and the fetch is rejected with an error
  that has no response.
\<close>

lemma processSlug_throws_iff:
  "(fst (processSlug tokenOf method r x s) = Inl TypeError)
     = (contract r \<noteq> ''0x0e3a2a1f2146d86a604adc220b4967a898d7fe07''
        \<and> (\<exists>e. x = Rejected e \<and> response e = None))"
  by (cases x)
     (auto simp: processSlug_def Let_def status_is_429_def split: option.splits)

lemma fanout_throws:
  assumes "(r, Rejected e) \<in> set ts"
    and "contract r \<noteq> ''0x0e3a2a1f2146d86a604adc220b4967a898d7fe07''"
    and "response e = None"
  shows "fst (fanout tokenOf method ts s) = Inl TypeError"
  using assms(1)
proof (induction ts arbitrary: s)
  case Nil
  then show ?case by simp
next
  case (Cons t ts)
  show ?case
  proof (cases "t = (r, Rejected e)")
    case True
    with assms(2,3) have "fst (processSlug tokenOf method (fst t) (snd t) s) = Inl TypeError"
      by (simp add: processSlug_throws_iff)
    then show ?thesis
      by (simp only: fst_fanout_Cons sum.case)
  next
    case False
    with Cons.prems have "(r, Rejected e) \<in> set ts" by simp
    then have "fst (fanout tokenOf method ts
                      (snd (processSlug tokenOf method (fst t) (snd t) s))) = Inl TypeError"
      by (rule Cons.IH)
    then show ?thesis
      by (simp only: fst_fanout_Cons) (simp add: exn_is_TypeError split: sum.splits)
  qed
qed

lemma fanout_completes:
  assumes "\<forall>t \<in> set ts. \<forall>e. snd t = Rejected e \<longrightarrow> response e \<noteq> None"
  shows "fst (fanout tokenOf method ts s) = Inr ()"
  using assms
proof (induction ts arbitrary: s)
  case Nil
  show ?case by simp
next
  case (Cons t ts)
  have "fst (processSlug tokenOf method (fst t) (snd t) s) \<noteq> Inl TypeError"
    using Cons.prems by (auto simp: processSlug_throws_iff)
  then have "fst (processSlug tokenOf method (fst t) (snd t) s) = Inr ()"
    by (cases "fst (processSlug tokenOf method (fst t) (snd t) s)")
       (simp_all add: exn_is_TypeError)
  moreover have "fst (fanout tokenOf method ts
                        (snd (processSlug tokenOf method (fst t) (snd t) s))) = Inr ()"
    using Cons.prems by (intro Cons.IH) simp
  ultimately show ?case
    by (simp only: fst_fanout_Cons sum.case)
qed

subsection \<open>One invocation\<close>

text \<open>
  C6. When the pending list hands out nothing, the invocation releases the lock and ends:
  besides the pop itself this is its only call, so nothing is fetched, nothing is dispatched
  and no next job is queued.
\<close>

theorem worker_empty_pop:
  "pendingGet env (countTotal cfg) = [] \<Longrightarrow>
   worker cfg env sched =
     (Inr (), \<lparr>retry = False, rateLimitExpiredIn = 0, metadata = [],
        calls = [Pending_get (countTotal cfg), ReleaseLock (getLockName ''opensea'')]\<rparr>)"
  by (simp add: worker_def Let_def call_def init_def)

theorem worker_empty_pop_witness:
  "pendingGet empty_env (countTotal cfg5) = []
   \<and> worker cfg5 empty_env [] =
       (Inr (), \<lparr>retry = False, rateLimitExpiredIn = 0, metadata = [],
          calls = [Pending_get 5,
                   ReleaseLock ''metadata-index-process-queue-by-slug:opensea'']\<rparr>)"
proof -
  have e: "pendingGet empty_env (countTotal cfg5) = []"
    by (simp add: empty_env_def)
  from worker_empty_pop [OF e, of "[]"] e show ?thesis
    by (simp add: cfg5_def countTotal_def getLockName_def QUEUE_NAME_def)
qed

text \<open>
  What an invocation that did not throw has done about the lock and the next job, with the
  condition as the code tests it.
\<close>

lemma worker_final_calls:
  assumes cfg: "1 \<le> maxParallelTokenCollectionSlugRefreshJobs cfg"
    and run: "worker cfg env sched = (Inr (), s)"
  shows "0 \<le> rateLimitExpiredIn s \<and> filter isFinal (calls s) =
    (if rateLimitExpiredIn s \<noteq> 0
        \<or> int (length (pendingGet env (countTotal cfg))) = countTotal cfg
        \<or> retry s
     then if extendLock env (getLockName ''opensea'') (300 + rateLimitExpiredIn s)
          then [ExtendLock (getLockName ''opensea'') (300 + rateLimitExpiredIn s),
                Queue_add (rateLimitExpiredIn s * 1000)]
          else [ExtendLock (getLockName ''opensea'') (300 + rateLimitExpiredIn s)]
     else [ReleaseLock (getLockName ''opensea'')])"
proof (cases "pendingGet env (countTotal cfg) = []")
  case True
  with cfg run show ?thesis
    by (auto simp: worker_def Let_def call_def init_def countTotal_def)
next
  case False
  define ts where
    "ts = map (\<lambda>i. (pendingGet env (countTotal cfg) ! i, fetchSettles env i)) sched"
  define s0 :: "'a state" where "s0 = call (Pending_get (countTotal cfg)) init"
  obtain r1 s1 where f: "fanout (getSingleToken env) ''opensea'' ts s0 = (r1, s1)"
    by (cases "fanout (getSingleToken env) ''opensea'' ts s0")
  have r1: "r1 = Inr ()"
    using run False f by (cases r1) (auto simp: worker_def Let_def ts_def s0_def)
  have nonneg: "0 \<le> rateLimitExpiredIn s1"
    using fanout_rate_mono [of s0 "getSingleToken env" "''opensea''" ts] f
    by (simp add: s0_def call_fields init_def)
  have fin: "filter isFinal (calls s1) = []"
    using fanout_final [of "getSingleToken env" "''opensea''" ts s0] f
    by (simp add: s0_def calls_call init_def)
  show ?thesis
    using run False f r1 nonneg fin
    by (auto simp: worker_def Let_def ts_def s0_def addToQueue_def calls_call call_fields
        split: if_splits)
qed

text \<open>
  C7. In an invocation that reaches the decision with the condition true and whose
  \<^verbatim>\<open>extendLock\<close> answers false, the attempt to extend is the only call about the lock and
  the next job: no job is queued and the lock is not released.
\<close>

theorem worker_extend_fails:
  assumes "1 \<le> maxParallelTokenCollectionSlugRefreshJobs cfg"
    and "schedule_ok (length (pendingGet env (countTotal cfg))) sched"
    and "worker cfg env sched = (Inr (), s)"
    and "0 < rateLimitExpiredIn s
        \<or> int (length (pendingGet env (countTotal cfg))) = countTotal cfg
        \<or> retry s"
    and "\<not> extendLock env (getLockName ''opensea'') (300 + rateLimitExpiredIn s)"
  shows "filter isFinal (calls s)
           = [ExtendLock (getLockName ''opensea'') (300 + rateLimitExpiredIn s)]
    \<and> (\<forall>d. Queue_add d \<notin> set (calls s)) \<and> (\<forall>k. ReleaseLock k \<notin> set (calls s))"
proof -
  from worker_final_calls [OF assms(1) assms(3)] assms(4) assms(5)
  have fin: "filter isFinal (calls s)
               = [ExtendLock (getLockName ''opensea'') (300 + rateLimitExpiredIn s)]"
    by auto
  have only: "c = ExtendLock (getLockName ''opensea'') (300 + rateLimitExpiredIn s)"
    if "c \<in> set (calls s)" and "isFinal c" for c
  proof -
    from that have "c \<in> set (filter isFinal (calls s))" by simp
    with fin show ?thesis by simp
  qed
  have "Queue_add d \<notin> set (calls s)" and "ReleaseLock k \<notin> set (calls s)" for d k
    using only [of "Queue_add d"] only [of "ReleaseLock k"] by auto
  with fin show ?thesis by simp
qed

theorem worker_extend_fails_witness:
  "worker cfg5 (one_env (page [''t1''] (Some ''abc'')) False) [0] = (Inr (), lock_lost_state)
   \<and> retry lock_lost_state
   \<and> \<not> extendLock (one_env (page [''t1''] (Some ''abc'')) False)
          (getLockName ''opensea'') (300 + rateLimitExpiredIn lock_lost_state)
   \<and> filter isFinal (calls lock_lost_state) = [ExtendLock (getLockName ''opensea'') 300]
   \<and> (\<forall>d. Queue_add d \<notin> set (calls lock_lost_state))
   \<and> (\<forall>k. ReleaseLock k \<notin> set (calls lock_lost_state))"
proof -
  let ?env = "one_env (page [''t1''] (Some ''abc'')) False"
  have cfg: "1 \<le> maxParallelTokenCollectionSlugRefreshJobs cfg5"
    by (simp add: cfg5_def)
  have sched: "schedule_ok (length (pendingGet ?env (countTotal cfg5))) [0]"
    by (simp add: one_env_def schedule_ok_def)
  have run: "worker cfg5 ?env [0] = (Inr (), lock_lost_state)"
    by (simp add: ex_defs run_defs lock_lost_state_def)
  have cond: "0 < rateLimitExpiredIn lock_lost_state
      \<or> int (length (pendingGet ?env (countTotal cfg5))) = countTotal cfg5
      \<or> retry lock_lost_state"
    by (simp add: lock_lost_state_def)
  have fail: "\<not> extendLock ?env (getLockName ''opensea'')
                  (300 + rateLimitExpiredIn lock_lost_state)"
    by (simp add: one_env_def)
  from worker_extend_fails [OF cfg sched run cond fail] run cond fail
  show ?thesis
    by (simp add: lock_lost_state_def)
qed

subsection \<open>A fetch that fails without a response\<close>

text \<open>
  Whenever a fetched request of the batch is rejected with an error that has no response,
  the invocation ends with the \<^verbatim>\<open>TypeError\<close>: it writes no metadata and neither extends nor
  releases the lock, whatever the other requests do. When every rejection carries a
  response, no task throws.
\<close>

lemma worker_throws:
  assumes "i \<in> set sched"
    and "pendingGet env (countTotal cfg) \<noteq> []"
    and "contract (pendingGet env (countTotal cfg) ! i)
           \<noteq> ''0x0e3a2a1f2146d86a604adc220b4967a898d7fe07''"
    and "fetchSettles env i = Rejected e" and "response e = None"
  shows "fst (worker cfg env sched) = Inl TypeError
    \<and> filter isWrite (calls (snd (worker cfg env sched))) = []
    \<and> filter isFinal (calls (snd (worker cfg env sched))) = []"
proof -
  define ts where
    "ts = map (\<lambda>i. (pendingGet env (countTotal cfg) ! i, fetchSettles env i)) sched"
  define s0 :: "'a state" where "s0 = call (Pending_get (countTotal cfg)) init"
  have "(pendingGet env (countTotal cfg) ! i, Rejected e) \<in> set ts"
    using assms(1,4) by (force simp: ts_def)
  from fanout_throws [OF this assms(3,5)]
  have thr: "fst (fanout (getSingleToken env) ''opensea'' ts s0) = Inl TypeError" .
  have w: "filter isWrite (calls (snd (fanout (getSingleToken env) ''opensea'' ts s0))) = []"
    by (simp add: fanout_no_write s0_def calls_call init_def)
  have f: "filter isFinal (calls (snd (fanout (getSingleToken env) ''opensea'' ts s0))) = []"
    by (simp add: fanout_final s0_def calls_call init_def)
  obtain r1 s1 where eq: "fanout (getSingleToken env) ''opensea'' ts s0 = (r1, s1)"
    by (cases "fanout (getSingleToken env) ''opensea'' ts s0")
  with thr w f assms(2) show ?thesis
    by (simp add: worker_def Let_def ts_def s0_def)
qed

lemma worker_completes:
  assumes "\<forall>i \<in> set sched. \<forall>e. fetchSettles env i = Rejected e \<longrightarrow> response e \<noteq> None"
  shows "fst (worker cfg env sched) = Inr ()"
proof -
  define ts where
    "ts = map (\<lambda>i. (pendingGet env (countTotal cfg) ! i, fetchSettles env i)) sched"
  define s0 :: "'a state" where "s0 = call (Pending_get (countTotal cfg)) init"
  have "\<forall>t \<in> set ts. \<forall>e. snd t = Rejected e \<longrightarrow> response e \<noteq> None"
    using assms by (auto simp: ts_def)
  then have "fst (fanout (getSingleToken env) ''opensea'' ts s0) = Inr ()"
    by (rule fanout_completes)
  then show ?thesis
    by (cases "fanout (getSingleToken env) ''opensea'' ts s0")
       (simp add: worker_def Let_def ts_def s0_def)
qed

text \<open>
  When every rejection of the batch carries a response and the configured batch size is at
  least 1, the invocation returns normally and its calls about the lock and the next job are
  decided by one condition: the cooldown is positive, or as many requests were popped as
  were asked for, or \<^verbatim>\<open>retry\<close> is set. If it holds, the lock is extended for 300 seconds
  plus the cooldown and, only when that succeeds, the next job is queued with a delay of the
  cooldown (in milliseconds); if it does not hold, the lock is released.
\<close>

lemma worker_decision:
  assumes "1 \<le> maxParallelTokenCollectionSlugRefreshJobs cfg"
    and "\<forall>i \<in> set sched. \<forall>e. fetchSettles env i = Rejected e \<longrightarrow> response e \<noteq> None"
  shows "\<exists>s. worker cfg env sched = (Inr (), s) \<and> filter isFinal (calls s) =
    (if 0 < rateLimitExpiredIn s
        \<or> int (length (pendingGet env (countTotal cfg))) = countTotal cfg
        \<or> retry s
     then if extendLock env (getLockName ''opensea'') (300 + rateLimitExpiredIn s)
          then [ExtendLock (getLockName ''opensea'') (300 + rateLimitExpiredIn s),
                Queue_add (rateLimitExpiredIn s * 1000)]
          else [ExtendLock (getLockName ''opensea'') (300 + rateLimitExpiredIn s)]
     else [ReleaseLock (getLockName ''opensea'')])"
proof -
  have "fst (worker cfg env sched) = Inr ()"
    using assms(2) by (rule worker_completes)
  then have "worker cfg env sched = (Inr (), snd (worker cfg env sched))"
    by (cases "worker cfg env sched") simp
  then obtain s where run: "worker cfg env sched = (Inr (), s)" ..
  from worker_final_calls [OF assms(1) run]
  have nonneg: "0 \<le> rateLimitExpiredIn s" and fin: "filter isFinal (calls s) =
    (if rateLimitExpiredIn s \<noteq> 0
        \<or> int (length (pendingGet env (countTotal cfg))) = countTotal cfg
        \<or> retry s
     then if extendLock env (getLockName ''opensea'') (300 + rateLimitExpiredIn s)
          then [ExtendLock (getLockName ''opensea'') (300 + rateLimitExpiredIn s),
                Queue_add (rateLimitExpiredIn s * 1000)]
          else [ExtendLock (getLockName ''opensea'') (300 + rateLimitExpiredIn s)]
     else [ReleaseLock (getLockName ''opensea'')])"
    by simp_all
  from nonneg have "(0 < rateLimitExpiredIn s) = (rateLimitExpiredIn s \<noteq> 0)"
    by arith
  with fin run show ?thesis
    by simp
qed

text \<open>The run of one request that is rate limited with \<^verbatim>\<open>expires_in = 20\<close>.\<close>

lemma worker_cooldown_run:
  "worker cfg5 (one_env (Rejected (rate_limited 20)) True) [0] = (Inr (), cooldown_state)"
  by (simp add: ex_defs run_defs cooldown_state_def)

text \<open>
  C3. A batch of two: the fetch of \<open>req_a\<close> is rate limited with \<^verbatim>\<open>expires_in = 20\<close>,
  the fetch of \<open>req_b\<close> fails without a response. Both tasks have settled and the cooldown
  is 20, so the condition for another run holds; but the invocation ends with the
  \<^verbatim>\<open>TypeError\<close> of the second task and takes no decision: the lock is not extended, no
  job is queued, and the lock is not released either.
\<close>

theorem worker_throw_skips_decision:
  "worker cfg5 (two_env (Rejected (rate_limited 20)) (Rejected no_response)) [0, 1]
   = (Inl TypeError,
      \<lparr>retry = False, rateLimitExpiredIn = 20, metadata = [],
       calls = [Pending_get 5,
                MetadataApi_getTokensMetadataBySlug ''0xaa'' ''apes'' ''opensea'' (Some ''p1''),
                Pending_add req_a True,
                MetadataApi_getTokensMetadataBySlug ''0xbb'' ''birds'' ''opensea'' None]\<rparr>)"
  by (simp add: ex_defs run_defs)

theorem worker_throw_skips_decision_witness:
  "fst (worker cfg5 (two_env (Rejected (rate_limited 20)) (Rejected no_response)) [0, 1])
     = Inl TypeError
   \<and> rateLimitExpiredIn
       (snd (worker cfg5 (two_env (Rejected (rate_limited 20)) (Rejected no_response)) [0, 1]))
     = 20
   \<and> filter isFinal
       (calls (snd (worker cfg5 (two_env (Rejected (rate_limited 20)) (Rejected no_response))
                      [0, 1])))
     = []"
  using worker_throw_skips_decision
  by simp

text \<open>
  C2. A batch of two: the fetch of \<open>req_a\<close> fails without a response (a network error),
  the fetch of \<open>req_b\<close> returns one item. The item is collected, but the invocation ends
  with the \<^verbatim>\<open>TypeError\<close> thrown while handling the failure of \<open>req_a\<close>: the write queue
  is never called and the lock is neither extended nor released.
\<close>

theorem worker_no_response_fails:
  "worker cfg5 (two_env (Rejected no_response) (page [''t1''] None)) [0, 1]
   = (Inl TypeError,
      \<lparr>retry = False, rateLimitExpiredIn = 0, metadata = [''t1''],
       calls = [Pending_get 5,
                MetadataApi_getTokensMetadataBySlug ''0xaa'' ''apes'' ''opensea'' (Some ''p1''),
                MetadataApi_getTokensMetadataBySlug ''0xbb'' ''birds'' ''opensea'' None]\<rparr>)"
  by (simp add: ex_defs run_defs)

text \<open>What this run did not do: no metadata write and no call about the lock.\<close>

theorem worker_no_response_fails_witness:
  "fst (worker cfg5 (two_env (Rejected no_response) (page [''t1''] None)) [0, 1])
     = Inl TypeError
   \<and> filter isWrite
       (calls (snd (worker cfg5 (two_env (Rejected no_response) (page [''t1''] None)) [0, 1])))
     = []
   \<and> filter isFinal
       (calls (snd (worker cfg5 (two_env (Rejected no_response) (page [''t1''] None)) [0, 1])))
     = []"
  using worker_no_response_fails
  by simp

end
